theory Spec2Isabelle
  imports Complex_Main "HOL-Library.List_Lexorder" "HOL-Library.Char_ord"
begin

section \<open>Domain models (models/question.py, models/user.py)\<close>

text \<open>
  Python strings are modelled as \<open>string\<close>, Python's unbounded integers as \<open>int\<close>,
  and a timestamp as the integer reading of a clock that the caller supplies.
  Python's true division on integers is taken in exact arithmetic over \<open>real\<close>.
\<close>

type_synonym timestamp = int

record question =
  q_id :: "int option"
  prompt :: string
  option_a :: string
  option_b :: string
  option_c :: string
  answer :: string
  category :: string
  difficulty :: string
  q_created_at :: "timestamp option"
  q_updated_at :: "timestamp option"
  tags :: "string list"

record user =
  u_id :: "int option"
  username :: string
  password_hash :: string
  role :: string
  u_created_at :: "timestamp option"
  last_login :: "timestamp option"
  is_active :: bool

record quiz_result =
  r_id :: "int option"
  user_id :: "int option"
  score :: int
  total_questions :: int
  time_taken :: int
  completed_at :: "timestamp option"
  questions_attempted :: "int list"

text \<open>\<open>QuizResult.percentage\<close>: the division is guarded by the test on \<open>total_questions\<close>.\<close>

definition percentage :: "quiz_result \<Rightarrow> real" where
  "percentage r =
     (if total_questions r = 0 then 0
      else (real_of_int (score r) / real_of_int (total_questions r)) * 100)"

text \<open>\<open>QuizResult.grade\<close>: the chain of thresholds, in the source's order.\<close>

definition grade :: "quiz_result \<Rightarrow> string" where
  "grade r =
     (let p = percentage r in
      if p \<ge> 90 then ''A''
      else if p \<ge> 80 then ''B''
      else if p \<ge> 70 then ''C''
      else if p \<ge> 60 then ''D''
      else ''F'')"

section \<open>The embedded store at schema level (database/migrations.py)\<close>

text \<open>
  The migration engine is modelled over the schema of the SQLite file: the tables listed
  in \<open>sqlite_master\<close> with their columns, the indexes with the table each one belongs
  to, and the rows of the tracking table \<open>schema_migrations\<close>. The rows of the
  application tables play no part in the engine and are left out at this level.
  A statement that SQLite rejects raises an exception in Python; here it yields \<open>None\<close>.
  Failures of the file system are outside the model.
\<close>

type_synonym migration_row = "string \<times> string \<times> int"
  \<comment> \<open>version, description, execution time in milliseconds\<close>

record database =
  tables :: "(string \<times> string list) list"
  indexes :: "(string \<times> string) list"
  schema_migrations :: "migration_row list"

definition table_names :: "database \<Rightarrow> string list" where
  "table_names db = map fst (tables db)"

definition has_table :: "string \<Rightarrow> database \<Rightarrow> bool" where
  "has_table t db = (t \<in> set (table_names db))"

definition has_index :: "string \<Rightarrow> database \<Rightarrow> bool" where
  "has_index i db = (i \<in> set (map fst (indexes db)))"

definition columns_of :: "string \<Rightarrow> database \<Rightarrow> string list" where
  "columns_of t db = (case map_of (tables db) t of None \<Rightarrow> [] | Some cs \<Rightarrow> cs)"

text \<open>
  \<open>CREATE TABLE IF NOT EXISTS t (...)\<close>: nothing happens when the table exists; the name
  of an existing index is refused; a table with an \<open>AUTOINCREMENT\<close> key brings SQLite's
  own table \<open>sqlite_sequence\<close> into being; a new tracking table has no rows.
\<close>

definition create_table :: "string \<Rightarrow> string list \<Rightarrow> bool \<Rightarrow> database \<Rightarrow> database option" where
  "create_table t cols autoinc db =
     (if has_table t db then Some db
      else if has_index t db then None
      else Some (db\<lparr>tables := tables db @ [(t, cols)] @
              (if autoinc \<and> \<not> has_table ''sqlite_sequence'' db
               then [(''sqlite_sequence'', [''name'', ''seq''])] else []),
            schema_migrations :=
              (if t = ''schema_migrations'' then [] else schema_migrations db)\<rparr>))"


text \<open>
  \<open>CREATE INDEX IF NOT EXISTS i ON t(c)\<close>: the table is looked up first, then the name,
  then the column.
\<close>

definition create_index :: "string \<Rightarrow> string \<Rightarrow> string \<Rightarrow> database \<Rightarrow> database option" where
  "create_index i t c db =
     (if \<not> has_table t db then None
      else if has_index i db then Some db
      else if has_table i db then None
      else if c \<notin> set (columns_of t db) then None
      else Some (db\<lparr>indexes := indexes db @ [(i, t)]\<rparr>))"

text \<open>\<open>ALTER TABLE t ADD COLUMN c\<close>: refused when the table is missing or has the column.\<close>

definition add_column :: "string \<Rightarrow> string \<Rightarrow> database \<Rightarrow> database option" where
  "add_column t c db =
     (if \<not> has_table t db then None
      else if c \<in> set (columns_of t db) then None
      else Some (db\<lparr>tables := map (\<lambda>(n, cs). if n = t then (n, cs @ [c]) else (n, cs)) (tables db)\<rparr>))"

subsection \<open>Migrations\<close>

text \<open>
  A migration has a version, a description and the step \<open>up\<close>, which receives the
  connection and may raise. The step \<open>down\<close> belongs to \<open>rollback_migration\<close>, which
  is not modelled.
\<close>

record migration =
  version :: string
  description :: string
  up :: "database \<Rightarrow> database option"

definition InitialSchemaMigration :: migration where
  "InitialSchemaMigration =
     \<lparr>version = ''001'',
      description = ''Create initial schema with questions and users tables'',
      up = (\<lambda>db.
        Option.bind (create_table ''questions''
            [''id'', ''prompt'', ''option_a'', ''option_b'', ''option_c'', ''answer'',
             ''category'', ''created_at'', ''updated_at''] True db)
          (create_table ''users''
            [''id'', ''username'', ''password_hash'', ''role'', ''created_at'',
             ''last_login'', ''is_active''] True))\<rparr>"

definition AddIndexesMigration :: migration where
  "AddIndexesMigration =
     \<lparr>version = ''002'',
      description = ''Add indexes for better query performance'',
      up = (\<lambda>db.
        Option.bind (create_index ''idx_questions_category'' ''questions'' ''category'' db) (\<lambda>db.
        Option.bind (create_index ''idx_questions_created_at'' ''questions'' ''created_at'' db) (\<lambda>db.
        Option.bind (create_index ''idx_users_username'' ''users'' ''username'' db)
          (create_index ''idx_users_role'' ''users'' ''role''))))\<rparr>"

definition AddTagsColumnMigration :: migration where
  "AddTagsColumnMigration =
     \<lparr>version = ''003'',
      description = ''Add tags column to questions table'',
      up = add_column ''questions'' ''tags''\<rparr>"

definition AddDifficultyLevelsMigration :: migration where
  "AddDifficultyLevelsMigration =
     \<lparr>version = ''004'',
      description = ''Add difficulty levels to questions'',
      up = (\<lambda>db.
        Option.bind (add_column ''questions'' ''difficulty'' db)
          (create_index ''idx_questions_difficulty'' ''questions'' ''difficulty''))\<rparr>"

definition AddQuizResultsTrackingMigration :: migration where
  "AddQuizResultsTrackingMigration =
     \<lparr>version = ''005'',
      description = ''Add quiz results tracking system'',
      up = (\<lambda>db.
        Option.bind (create_table ''quiz_results''
            [''id'', ''user_id'', ''score'', ''total_questions'', ''time_taken'',
             ''completed_at'', ''questions_attempted''] True db) (\<lambda>db.
        Option.bind (create_index ''idx_quiz_results_user'' ''quiz_results'' ''user_id'' db)
          (create_index ''idx_quiz_results_completed'' ''quiz_results'' ''completed_at'')))\<rparr>"

subsection \<open>MigrationManager\<close>

text \<open>
  \<open>_register_migrations\<close> appends the five migrations and sorts the list by version.
  Python compares strings by code point and its sort is stable, as \<open>sort_key\<close> is on
  the lexicographic order of \<open>string\<close>. The functions below take the list
  \<open>self.migrations\<close> as their first argument.
\<close>

definition sort_migrations :: "migration list \<Rightarrow> migration list" where
  "sort_migrations ms = sort_key version ms"

definition register_migrations :: "migration list" where
  "register_migrations =
     sort_migrations [InitialSchemaMigration, AddIndexesMigration, AddTagsColumnMigration,
       AddDifficultyLevelsMigration, AddQuizResultsTrackingMigration]"

text \<open>\<open>create_migrations_table\<close>: \<open>CREATE TABLE IF NOT EXISTS schema_migrations\<close>.\<close>

definition create_migrations_table :: "database \<Rightarrow> database option" where
  "create_migrations_table db =
     create_table ''schema_migrations''
       [''version'', ''description'', ''applied_at'', ''execution_time_ms''] False db"

datatype sqlite_error = OperationalError | IntegrityError

text \<open>\<open>SELECT version FROM schema_migrations ORDER BY version\<close>.\<close>

definition select_versions :: "database \<Rightarrow> sqlite_error + string list" where
  "select_versions db =
     (if has_table ''schema_migrations'' db
      then Inr (sort (map fst (schema_migrations db)))
      else Inl OperationalError)"

text \<open>\<open>get_applied_migrations\<close>: both \<open>except\<close> branches return the empty list.\<close>

definition get_applied_migrations :: "database \<Rightarrow> string list" where
  "get_applied_migrations db =
     (case select_versions db of Inl OperationalError \<Rightarrow> [] | Inl e \<Rightarrow> [] | Inr vs \<Rightarrow> vs)"

definition get_pending_migrations :: "migration list \<Rightarrow> database \<Rightarrow> migration list" where
  "get_pending_migrations ms db =
     (let applied = set (get_applied_migrations db)
      in filter (\<lambda>m. version m \<notin> applied) ms)"

text \<open>
  \<open>INSERT INTO schema_migrations (version, description, execution_time_ms)\<close>: the table
  must exist and \<open>version\<close> is its primary key.
\<close>

definition insert_migration_row :: "migration_row \<Rightarrow> database \<Rightarrow> database option" where
  "insert_migration_row r db =
     (if \<not> has_table ''schema_migrations'' db then None
      else if fst r \<in> set (map fst (schema_migrations db)) then None
      else Some (db\<lparr>schema_migrations := schema_migrations db @ [r]\<rparr>))"

text \<open>
  \<open>apply_migration\<close>: \<open>BEGIN\<close>, \<open>up\<close>, the record, \<open>commit\<close>. An exception in
  \<open>up\<close> or in the insert reaches \<open>conn.rollback()\<close>, which restores the state of
  \<open>BEGIN\<close>, and the outer handler returns \<open>False\<close>. The measured duration is the
  argument \<open>execution_time\<close>.
\<close>

definition apply_migration :: "int \<Rightarrow> migration \<Rightarrow> database \<Rightarrow> bool \<times> database" where
  "apply_migration execution_time m db =
     (case up m db of
        None \<Rightarrow> (False, db)
      | Some db1 \<Rightarrow>
          (case insert_migration_row (version m, description m, execution_time) db1 of
             None \<Rightarrow> (False, db)
           | Some db2 \<Rightarrow> (True, db2)))"

text \<open>
  The loop of \<open>migrate\<close> over the pending list, which is computed once before the loop.
  \<open>elapsed v\<close> is the duration measured for the migration of version \<open>v\<close>.
\<close>

fun apply_pending :: "(string \<Rightarrow> int) \<Rightarrow> migration list \<Rightarrow> database \<Rightarrow> bool \<times> database" where
  "apply_pending elapsed [] db = (True, db)"
| "apply_pending elapsed (m # ms) db =
     (case apply_migration (elapsed (version m)) m db of
        (False, db') \<Rightarrow> (False, db')
      | (True, db') \<Rightarrow> apply_pending elapsed ms db')"

definition migrate :: "migration list \<Rightarrow> (string \<Rightarrow> int) \<Rightarrow> database \<Rightarrow> bool \<times> database" where
  "migrate ms elapsed db =
     (case create_migrations_table db of
        None \<Rightarrow> (False, db)
      | Some db0 \<Rightarrow>
          (let pending = get_pending_migrations ms db0
           in if pending = [] then (True, db0)
              else apply_pending elapsed pending db0))"

text \<open>
  The reading of the specification that \<open>migrate\<close> is compared with: each unit of
  the list, in order, has its step run and its version, description and duration
  recorded; the result is the state after the last commit, and there is none when a step
  or a record fails.
\<close>

fun transactions_committed ::
  "(string \<Rightarrow> int) \<Rightarrow> migration list \<Rightarrow> database \<Rightarrow> database option" where
  "transactions_committed elapsed [] db = Some db"
| "transactions_committed elapsed (m # ms) db =
     (case up m db of
        None \<Rightarrow> None
      | Some db1 \<Rightarrow>
          (case insert_migration_row (version m, description m, elapsed (version m)) db1 of
             None \<Rightarrow> None
           | Some db2 \<Rightarrow> transactions_committed elapsed ms db2))"




text \<open>
  \<open>DatabaseManager._create_tables\<close> (database/connection.py) runs when the
  \<open>DatabaseManager\<close> is built, which \<open>MigrationManager.__init__\<close> does first;
  \<open>initial_schema\<close> is what it leaves in an empty file.
\<close>

definition empty_database :: database where
  "empty_database = \<lparr>tables = [], indexes = [], schema_migrations = []\<rparr>"

definition create_tables :: "database \<Rightarrow> database option" where
  "create_tables db =
     Option.bind (create_table ''questions''
         [''id'', ''prompt'', ''option_a'', ''option_b'', ''option_c'', ''answer'', ''category'',
          ''difficulty'', ''created_at'', ''updated_at'', ''tags''] True db) (\<lambda>db.
     Option.bind (create_table ''users''
         [''id'', ''username'', ''password_hash'', ''role'', ''created_at'', ''last_login'',
          ''is_active''] True db) (\<lambda>db.
     Option.bind (create_table ''quiz_results''
         [''id'', ''user_id'', ''score'', ''total_questions'', ''time_taken'', ''completed_at'',
          ''questions_attempted''] True db) (\<lambda>db.
     Option.bind (create_index ''idx_questions_category'' ''questions'' ''category'' db) (\<lambda>db.
     Option.bind (create_index ''idx_questions_difficulty'' ''questions'' ''difficulty'' db) (\<lambda>db.
     Option.bind (create_index ''idx_quiz_results_user'' ''quiz_results'' ''user_id'' db)
       (create_index ''idx_quiz_results_completed'' ''quiz_results'' ''completed_at''))))))"

definition initial_schema :: database where
  "initial_schema =
     (case create_tables empty_database of Some db \<Rightarrow> db | None \<Rightarrow> empty_database)"

section \<open>Python strings\<close>

text \<open>
  A \<open>string\<close> here is the UTF-8 encoding of the Python string, one \<open>char\<close> per
  byte. Equality and the lexicographic order agree with Python's on the code points;
  the comma is a single byte that occurs in no longer encoding.
\<close>


text \<open>\<open>s.split(c)\<close> for a separator of one character: the empty string gives \<open>['']\<close>.\<close>

fun split :: "char \<Rightarrow> string \<Rightarrow> string list" where
  "split c [] = [[]]"
| "split c (x # xs) =
     (if x = c then [] # split c xs
      else (case split c xs of [] \<Rightarrow> [[x]] | w # ws \<Rightarrow> (x # w) # ws))"

text \<open>
  \<open>s.strip()\<close> removes the white space of Unicode at both ends. These are the code
  points U+0009 to U+000D, U+001C to U+0020, U+0085, U+00A0, U+1680, U+2000 to U+200A,
  U+2028, U+2029, U+202F, U+205F and U+3000, of one, two or three bytes in UTF-8.
\<close>

definition is_ws1 :: "char \<Rightarrow> bool" where
  "is_ws1 a = (let x = (of_char a :: nat) in (9 \<le> x \<and> x \<le> 13) \<or> (28 \<le> x \<and> x \<le> 32))"

definition is_ws2 :: "char \<Rightarrow> char \<Rightarrow> bool" where
  "is_ws2 a b = (a = CHR 0xC2 \<and> (b = CHR 0x85 \<or> b = CHR 0xA0))"

definition is_ws3 :: "char \<Rightarrow> char \<Rightarrow> char \<Rightarrow> bool" where
  "is_ws3 a b c =
     ((a = CHR 0xE1 \<and> b = CHR 0x9A \<and> c = CHR 0x80)
      \<or> (a = CHR 0xE2 \<and> b = CHR 0x80 \<and>
          ((128 \<le> (of_char c :: nat) \<and> (of_char c :: nat) \<le> 138)
           \<or> c = CHR 0xA8 \<or> c = CHR 0xA9 \<or> c = CHR 0xAF))
      \<or> (a = CHR 0xE2 \<and> b = CHR 0x81 \<and> c = CHR 0x9F)
      \<or> (a = CHR 0xE3 \<and> b = CHR 0x80 \<and> c = CHR 0x80))"

fun lstrip :: "string \<Rightarrow> string" where
  "lstrip (a # b # c # s) =
     (if is_ws1 a then lstrip (b # c # s)
      else if is_ws2 a b then lstrip (c # s)
      else if is_ws3 a b c then lstrip s
      else a # b # c # s)"
| "lstrip [a, b] =
     (if is_ws1 a then lstrip [b] else if is_ws2 a b then [] else [a, b])"
| "lstrip [a] = (if is_ws1 a then [] else [a])"
| "lstrip [] = []"

text \<open>The same from the end, on the reversed bytes.\<close>

fun rstrip_rev :: "string \<Rightarrow> string" where
  "rstrip_rev (c # b # a # s) =
     (if is_ws1 c then rstrip_rev (b # a # s)
      else if is_ws2 b c then rstrip_rev (a # s)
      else if is_ws3 a b c then rstrip_rev s
      else c # b # a # s)"
| "rstrip_rev [b, a] =
     (if is_ws1 b then rstrip_rev [a] else if is_ws2 a b then [] else [b, a])"
| "rstrip_rev [a] = (if is_ws1 a then [] else [a])"
| "rstrip_rev [] = []"

definition rstrip :: "string \<Rightarrow> string" where
  "rstrip s = rev (rstrip_rev (rev s))"

definition strip :: "string \<Rightarrow> string" where
  "strip s = rstrip (lstrip s)"

text \<open>\<open>str(n)\<close> for an integer: its decimal digits.\<close>

function str_nat :: "nat \<Rightarrow> string" where
  "str_nat n =
     (if n < 10 then [char_of (48 + n)]
      else str_nat (n div 10) @ [char_of (48 + n mod 10)])"
  by pat_completeness auto
termination
  by (relation "measure (\<lambda>n. n)") auto

definition str :: "int \<Rightarrow> string" where
  "str i = (if i < 0 then ''-'' @ str_nat (nat (- i)) else str_nat (nat i))"

section \<open>The embedded store at row level (database/connection.py, database/repository.py)\<close>

text \<open>
  The repositories run on the three tables that \<open>_create_tables\<close> creates. A table is
  the list of its rows in the order of insertion, with the counter that SQLite keeps in
  \<open>sqlite_sequence\<close> for its \<open>AUTOINCREMENT\<close> key. The columns that the code always
  supplies are not null in the model; \<open>CURRENT_TIMESTAMP\<close> is the argument \<open>now\<close>.
  Failures of the file system are outside the model.
\<close>

record question_row =
  qr_id :: int
  qr_prompt :: string
  qr_option_a :: string
  qr_option_b :: string
  qr_option_c :: string
  qr_answer :: string
  qr_category :: string
  qr_difficulty :: string
  qr_created_at :: timestamp
  qr_updated_at :: timestamp
  qr_tags :: string

record user_row =
  ur_id :: int
  ur_username :: string
  ur_password_hash :: string
  ur_role :: string
  ur_created_at :: timestamp
  ur_last_login :: "timestamp option"
  ur_is_active :: bool

record result_row =
  rr_id :: int
  rr_user_id :: "int option"
  rr_score :: int
  rr_total_questions :: int
  rr_time_taken :: int
  rr_completed_at :: timestamp
  rr_questions_attempted :: string

record store =
  questions_table :: "question_row list"
  seq_questions :: int
  users_table :: "user_row list"
  seq_users :: int
  quiz_results_table :: "result_row list"
  seq_quiz_results :: int

definition empty_store :: store where
  "empty_store = \<lparr>questions_table = [], seq_questions = 0, users_table = [], seq_users = 0,
     quiz_results_table = [], seq_quiz_results = 0\<rparr>"

text \<open>
  The key of a new row of an \<open>AUTOINCREMENT\<close> table: one more than the largest key the
  table has ever held.
\<close>

definition next_rowid :: "int \<Rightarrow> int list \<Rightarrow> int" where
  "next_rowid seq ids = fold max ids seq + 1"

text \<open>
  \<open>INSERT INTO questions (prompt, option_a, option_b, option_c, answer, category,
  difficulty, tags)\<close> with the two \<open>CHECK\<close> constraints of the table; the result is
  \<open>lastrowid\<close> and the new state.
\<close>

definition insert_question ::
  "store \<Rightarrow> timestamp
     \<Rightarrow> string \<times> string \<times> string \<times> string \<times> string \<times> string \<times> string \<times> string
     \<Rightarrow> sqlite_error + (int \<times> store)" where
  "insert_question s now params =
     (case params of (p, a, b, c, ans, cat, diff, tgs) \<Rightarrow>
        if ans \<notin> set [''A'', ''B'', ''C''] then Inl IntegrityError
        else if diff \<notin> set [''Easy'', ''Medium'', ''Hard''] then Inl IntegrityError
        else
          (let i = next_rowid (seq_questions s) (map qr_id (questions_table s))
           in Inr (i, s\<lparr>questions_table := questions_table s @
                  [\<lparr>qr_id = i, qr_prompt = p, qr_option_a = a, qr_option_b = b,
                    qr_option_c = c, qr_answer = ans, qr_category = cat, qr_difficulty = diff,
                    qr_created_at = now, qr_updated_at = now, qr_tags = tgs\<rparr>],
                seq_questions := i\<rparr>)))"

subsection \<open>QuestionRepository\<close>


text \<open>
  \<open>_row_to_question\<close>: the tags are the pieces of the column between commas, stripped,
  without the empty ones.
\<close>

definition row_to_question :: "question_row \<Rightarrow> question" where
  "row_to_question row =
     \<lparr>q_id = Some (qr_id row), prompt = qr_prompt row, option_a = qr_option_a row,
      option_b = qr_option_b row, option_c = qr_option_c row, answer = qr_answer row,
      category = qr_category row, difficulty = qr_difficulty row,
      q_created_at = Some (qr_created_at row), q_updated_at = Some (qr_updated_at row),
      tags = (if qr_tags row \<noteq> []
              then map strip (filter (\<lambda>tag. strip tag \<noteq> []) (split CHR '','' (qr_tags row)))
              else [])\<rparr>"



text \<open>
  \<open>get_random_questions\<close>. A filter applies when its argument is neither \<open>None\<close> nor
  the empty string. \<open>ORDER BY RANDOM()\<close> draws a number for each row that passes and
  sorts the rows by it: \<open>rnd i\<close> is the number drawn for the \<open>i\<close>-th of these rows.
  \<open>LIMIT\<close> with a negative bound does not limit.
\<close>

fun condition :: "string option \<Rightarrow> string \<Rightarrow> bool" where
  "condition None v = True"
| "condition (Some x) v = (if x \<noteq> [] then v = x else True)"

definition matching_rows :: "store \<Rightarrow> string option \<Rightarrow> string option \<Rightarrow> question_row list" where
  "matching_rows s cat diff =
     filter (\<lambda>row. condition cat (qr_category row) \<and> condition diff (qr_difficulty row))
       (questions_table s)"

definition order_by_random :: "(nat \<Rightarrow> int) \<Rightarrow> 'a list \<Rightarrow> 'a list" where
  "order_by_random rnd rows = map snd (sort_key fst (zip (map rnd [0..<length rows]) rows))"

definition limit :: "int \<Rightarrow> 'a list \<Rightarrow> 'a list" where
  "limit n rows = (if n < 0 then rows else take (nat n) rows)"

definition get_random_questions ::
  "store \<Rightarrow> (nat \<Rightarrow> int) \<Rightarrow> int \<Rightarrow> string option \<Rightarrow> string option \<Rightarrow> question list" where
  "get_random_questions s rnd count cat diff =
     map row_to_question (limit count (order_by_random rnd (matching_rows s cat diff)))"

subsection \<open>UserRepository\<close>

definition row_to_user :: "user_row \<Rightarrow> user" where
  "row_to_user row =
     \<lparr>u_id = Some (ur_id row), username = ur_username row,
      password_hash = ur_password_hash row, role = ur_role row,
      u_created_at = Some (ur_created_at row), last_login = ur_last_login row,
      is_active = ur_is_active row\<rparr>"

definition get_by_username :: "store \<Rightarrow> string \<Rightarrow> user option" where
  "get_by_username s name =
     (case filter (\<lambda>row. ur_username row = name) (users_table s) of
        [] \<Rightarrow> None
      | row # rows \<Rightarrow> Some (row_to_user row))"

text \<open>\<open>UPDATE users SET last_login = CURRENT_TIMESTAMP WHERE id = ?\<close>.\<close>

definition update_last_login :: "store \<Rightarrow> timestamp \<Rightarrow> int option \<Rightarrow> store" where
  "update_last_login s now uid =
     s\<lparr>users_table :=
         map (\<lambda>row. if Some (ur_id row) = uid then row\<lparr>ur_last_login := Some now\<rparr> else row)
           (users_table s)\<rparr>"

text \<open>\<open>authenticate\<close>: the user object returned is the one read before the update.\<close>

definition authenticate :: "store \<Rightarrow> timestamp \<Rightarrow> string \<Rightarrow> string \<Rightarrow> user option \<times> store" where
  "authenticate s now name password =
     (case get_by_username s name of
        None \<Rightarrow> (None, s)
      | Some u \<Rightarrow>
          if password_hash u = password \<and> is_active u
          then (Some u, update_last_login s now (u_id u))
          else (None, s))"

subsection \<open>DatabaseManager: the sample data\<close>

definition sample_questions ::
  "(string \<times> string \<times> string \<times> string \<times> string \<times> string \<times> string \<times> string) list" where
  "sample_questions =
    [(''Python '' @
      [CHR 0xC4, CHR 0x91, CHR 0xC6, CHR 0xB0, CHR 0xE1, CHR 0xBB, CHR 0xA3] @ ''c ph'' @
      [CHR 0xC3, CHR 0xA1] @ ''t h'' @ [CHR 0xC3, CHR 0xA0] @ ''nh l'' @
      [CHR 0xE1, CHR 0xBA, CHR 0xA7] @ ''n '' @
      [CHR 0xC4, CHR 0x91, CHR 0xE1, CHR 0xBA, CHR 0xA7] @ ''u v'' @ [CHR 0xC3, CHR 0xA0] @
      ''o n'' @ [CHR 0xC4, CHR 0x83] @ ''m n'' @ [CHR 0xC3, CHR 0xA0] @ ''o?'',
      ''A. 1989'', ''B. 1991'', ''C. 1995'', ''B'', ''Python'', ''Easy'', ''python,history''),
     (''Ai l'' @ [CHR 0xC3, CHR 0xA0] @ '' cha '' @
      [CHR 0xC4, CHR 0x91, CHR 0xE1, CHR 0xBA, CHR 0xBB] @ '' c'' @
      [CHR 0xE1, CHR 0xBB, CHR 0xA7] @ ''a ng'' @ [CHR 0xC3, CHR 0xB4] @ ''n ng'' @
      [CHR 0xE1, CHR 0xBB, CHR 0xAF] @ '' Python?'',
      ''A. Guido van Rossum'', ''B. Bill Gates'', ''C. Linus Torvalds'', ''A'', ''Python'', ''Easy'', ''python,creator''),
     (''Th'' @ [CHR 0xC6, CHR 0xB0] @ '' vi'' @ [CHR 0xE1, CHR 0xBB, CHR 0x87] @ ''n n'' @
      [CHR 0xC3, CHR 0xA0] @ ''o '' @
      [CHR 0xC4, CHR 0x91, CHR 0xC6, CHR 0xB0, CHR 0xE1, CHR 0xBB, CHR 0xA3] @ ''c s'' @
      [CHR 0xE1, CHR 0xBB, CHR 0xAD] @ '' d'' @ [CHR 0xE1, CHR 0xBB, CHR 0xA5] @ ''ng '' @
      [CHR 0xC4, CHR 0x91, CHR 0xE1, CHR 0xBB, CHR 0x83] @ '' l'' @ [CHR 0xC3, CHR 0xA0] @
      ''m vi'' @ [CHR 0xE1, CHR 0xBB, CHR 0x87] @ ''c v'' @
      [CHR 0xE1, CHR 0xBB, CHR 0x9B] @ ''i m'' @ [CHR 0xE1, CHR 0xBA, CHR 0xA3] @
      ''ng trong Python?'',
      ''A. Pandas'', ''B. NumPy'', ''C. Matplotlib'', ''B'', ''Python'', ''Medium'', ''python,libraries''),
     (''Ph'' @ [CHR 0xC6, CHR 0xB0, CHR 0xC6, CHR 0xA1] @ ''ng th'' @
      [CHR 0xE1, CHR 0xBB, CHR 0xA9] @ ''c n'' @ [CHR 0xC3, CHR 0xA0] @ ''o '' @
      [CHR 0xC4, CHR 0x91, CHR 0xC6, CHR 0xB0, CHR 0xE1, CHR 0xBB, CHR 0xA3] @ ''c s'' @
      [CHR 0xE1, CHR 0xBB, CHR 0xAD] @ '' d'' @ [CHR 0xE1, CHR 0xBB, CHR 0xA5] @ ''ng '' @
      [CHR 0xC4, CHR 0x91, CHR 0xE1, CHR 0xBB, CHR 0x83] @ '' th'' @ [CHR 0xC3, CHR 0xAA] @
      ''m ph'' @ [CHR 0xE1, CHR 0xBA, CHR 0xA7] @ ''n t'' @
      [CHR 0xE1, CHR 0xBB, CHR 0xAD] @ '' v'' @ [CHR 0xC3, CHR 0xA0] @ ''o cu'' @
      [CHR 0xE1, CHR 0xBB, CHR 0x91] @ ''i list?'',
      ''A. append()'', ''B. insert()'', ''C. extend()'', ''A'', ''Python'', ''Easy'', ''python,list''),
     (''Trong Python, t'' @ [CHR 0xE1, CHR 0xBB, CHR 0xAB] @ '' kh'' @
      [CHR 0xC3, CHR 0xB3] @ ''a n'' @ [CHR 0xC3, CHR 0xA0] @ ''o '' @
      [CHR 0xC4, CHR 0x91, CHR 0xC6, CHR 0xB0, CHR 0xE1, CHR 0xBB, CHR 0xA3] @ ''c s'' @
      [CHR 0xE1, CHR 0xBB, CHR 0xAD] @ '' d'' @ [CHR 0xE1, CHR 0xBB, CHR 0xA5] @ ''ng '' @
      [CHR 0xC4, CHR 0x91, CHR 0xE1, CHR 0xBB, CHR 0x83] @ '' '' @
      [CHR 0xC4, CHR 0x91, CHR 0xE1, CHR 0xBB, CHR 0x8B] @ ''nh ngh'' @
      [CHR 0xC4, CHR 0xA9] @ ''a h'' @ [CHR 0xC3, CHR 0xA0] @ ''m?'',
      ''A. function'', ''B. def'', ''C. func'', ''B'', ''Python'', ''Easy'', ''python,syntax''),
     (''C'' @ [CHR 0xE1, CHR 0xBA, CHR 0xA5] @ ''u tr'' @ [CHR 0xC3, CHR 0xBA] @ ''c d'' @
      [CHR 0xE1, CHR 0xBB, CHR 0xAF] @ '' li'' @ [CHR 0xE1, CHR 0xBB, CHR 0x87] @ ''u n'' @
      [CHR 0xC3, CHR 0xA0] @ ''o trong Python l'' @ [CHR 0xC3, CHR 0xA0] @ '' c'' @
      [CHR 0xC3, CHR 0xB3] @ '' th'' @ [CHR 0xE1, CHR 0xBB, CHR 0xA9] @ '' t'' @
      [CHR 0xE1, CHR 0xBB, CHR 0xB1] @ '' v'' @ [CHR 0xC3, CHR 0xA0] @ '' c'' @
      [CHR 0xC3, CHR 0xB3] @ '' th'' @ [CHR 0xE1, CHR 0xBB, CHR 0x83] @ '' thay '' @
      [CHR 0xC4, CHR 0x91, CHR 0xE1, CHR 0xBB, CHR 0x95] @ ''i?'',
      ''A. tuple'', ''B. set'', ''C. list'', ''C'', ''Python'', ''Medium'', ''python,data-structures''),
     (''Ph'' @ [CHR 0xC6, CHR 0xB0, CHR 0xC6, CHR 0xA1] @ ''ng th'' @
      [CHR 0xE1, CHR 0xBB, CHR 0xA9] @ ''c n'' @ [CHR 0xC3, CHR 0xA0] @ ''o '' @
      [CHR 0xC4, CHR 0x91, CHR 0xC6, CHR 0xB0, CHR 0xE1, CHR 0xBB, CHR 0xA3] @ ''c s'' @
      [CHR 0xE1, CHR 0xBB, CHR 0xAD] @ '' d'' @ [CHR 0xE1, CHR 0xBB, CHR 0xA5] @ ''ng '' @
      [CHR 0xC4, CHR 0x91, CHR 0xE1, CHR 0xBB, CHR 0x83] @ '' chuy'' @
      [CHR 0xE1, CHR 0xBB, CHR 0x83] @ ''n '' @
      [CHR 0xC4, CHR 0x91, CHR 0xE1, CHR 0xBB, CHR 0x95] @ ''i string th'' @
      [CHR 0xC3, CHR 0xA0] @ ''nh ch'' @ [CHR 0xE1, CHR 0xBB, CHR 0xAF] @ '' hoa?'',
      ''A. upper()'', ''B. capitalize()'', ''C. title()'', ''A'', ''Python'', ''Easy'', ''python,string''),
     (''T'' @ [CHR 0xE1, CHR 0xBB, CHR 0xAB] @ '' kh'' @ [CHR 0xC3, CHR 0xB3] @ ''a n'' @
      [CHR 0xC3, CHR 0xA0] @ ''o '' @
      [CHR 0xC4, CHR 0x91, CHR 0xC6, CHR 0xB0, CHR 0xE1, CHR 0xBB, CHR 0xA3] @ ''c s'' @
      [CHR 0xE1, CHR 0xBB, CHR 0xAD] @ '' d'' @ [CHR 0xE1, CHR 0xBB, CHR 0xA5] @ ''ng '' @
      [CHR 0xC4, CHR 0x91, CHR 0xE1, CHR 0xBB, CHR 0x83] @ '' x'' @
      [CHR 0xE1, CHR 0xBB, CHR 0xAD] @ '' l'' @ [CHR 0xC3, CHR 0xBD] @ '' ngo'' @
      [CHR 0xE1, CHR 0xBA, CHR 0xA1] @ ''i l'' @ [CHR 0xE1, CHR 0xBB, CHR 0x87] @
      '' trong Python?'',
      ''A. catch'', ''B. except'', ''C. handle'', ''B'', ''Python'', ''Medium'', ''python,exception'')]"

text \<open>
  \<open>INSERT INTO users (username, password_hash, role)\<close>: the name is unique, the role is
  checked, \<open>is_active\<close> defaults to 1 and \<open>last_login\<close> to \<open>NULL\<close>.
\<close>

definition insert_user ::
  "store \<Rightarrow> timestamp \<Rightarrow> string \<times> string \<times> string \<Rightarrow> sqlite_error + (int \<times> store)" where
  "insert_user s now params =
     (case params of (name, pw, r) \<Rightarrow>
        if name \<in> set (map ur_username (users_table s)) then Inl IntegrityError
        else if r \<notin> set [''user'', ''admin''] then Inl IntegrityError
        else
          (let i = next_rowid (seq_users s) (map ur_id (users_table s))
           in Inr (i, s\<lparr>users_table := users_table s @
                  [\<lparr>ur_id = i, ur_username = name, ur_password_hash = pw, ur_role = r,
                    ur_created_at = now, ur_last_login = None, ur_is_active = True\<rparr>],
                seq_users := i\<rparr>)))"

text \<open>\<open>cursor.executemany\<close> over the rows, stopping at the first error.\<close>

fun executemany_questions ::
  "store \<Rightarrow> timestamp
     \<Rightarrow> (string \<times> string \<times> string \<times> string \<times> string \<times> string \<times> string \<times> string) list
     \<Rightarrow> sqlite_error + store" where
  "executemany_questions s now [] = Inr s"
| "executemany_questions s now (params # rest) =
     (case insert_question s now params of
        Inl e \<Rightarrow> Inl e
      | Inr (i, s') \<Rightarrow> executemany_questions s' now rest)"

definition insert_sample_data :: "store \<Rightarrow> timestamp \<Rightarrow> sqlite_error + store" where
  "insert_sample_data s now =
     (case (if length (questions_table s) = 0
            then executemany_questions s now sample_questions else Inr s) of
        Inl e \<Rightarrow> Inl e
      | Inr s1 \<Rightarrow>
          if length (filter (\<lambda>row. ur_username row = ''admin'') (users_table s1)) = 0
          then (case insert_user s1 now (''admin'', ''admin123'', ''admin'') of
                  Inl e \<Rightarrow> Inl e
                | Inr (i, s2) \<Rightarrow> Inr s2)
          else Inr s1)"

text \<open>
  \<open>_init_database\<close>: \<open>_create_tables\<close> creates the three tables, which the store of
  this level always has, and \<open>_insert_sample_data\<close> fills them.
\<close>

definition init_database :: "store \<Rightarrow> timestamp \<Rightarrow> sqlite_error + store" where
  "init_database s now = insert_sample_data s now"

text \<open>The store of a new file once the \<open>DatabaseManager\<close> is built at time \<open>now\<close>.\<close>

definition fresh_store :: "timestamp \<Rightarrow> store" where
  "fresh_store now =
     (case init_database empty_store now of Inr s \<Rightarrow> s | Inl e \<Rightarrow> empty_store)"

subsection \<open>QuizResultRepository\<close>



section \<open>The quiz service (services/quiz_service.py)\<close>

text \<open>
  \<open>calculate_score\<close>: the loop over \<open>enumerate(questions)\<close>, with the index, the score
  and the list of results as they stand. Comparing two strings raises nothing, so the
  handler of the function is never entered.
\<close>

fun calculate_score_loop ::
  "nat \<Rightarrow> question list \<Rightarrow> string list \<Rightarrow> int \<Rightarrow> bool list \<Rightarrow> int \<times> bool list" where
  "calculate_score_loop i [] user_answers sc correct_results = (sc, correct_results)"
| "calculate_score_loop i (q # qs) user_answers sc correct_results =
     (if i < length user_answers
      then (let is_correct = (user_answers ! i = answer q)
            in calculate_score_loop (Suc i) qs user_answers
                 (if is_correct then sc + 1 else sc) (correct_results @ [is_correct]))
      else calculate_score_loop (Suc i) qs user_answers sc (correct_results @ [False]))"

definition calculate_score :: "question list \<Rightarrow> string list \<Rightarrow> int \<times> bool list" where
  "calculate_score qs user_answers = calculate_score_loop 0 qs user_answers 0 []"

record quiz_report =
  report_score :: int
  report_total_questions :: int
  report_percentage :: real
  report_grade :: string
  report_time_taken :: int
  avg_time_per_question :: int
  report_questions :: "question list"
  report_user_answers :: "string list"
  report_correct_results :: "bool list"

text \<open>\<open>generate_quiz_report\<close>; \<open>sum\<close> of a list of booleans counts the true ones.\<close>

definition generate_quiz_report ::
  "question list \<Rightarrow> string list \<Rightarrow> bool list \<Rightarrow> int \<Rightarrow> quiz_report" where
  "generate_quiz_report qs user_answers correct_results taken =
     (let total_count = int (length qs);
          sc = int (length (filter (\<lambda>b. b) correct_results));
          p = (if total_count > 0 then real_of_int sc / real_of_int total_count * 100 else 0);
          g = (if p \<ge> 90 then ''A''
               else if p \<ge> 80 then ''B''
               else if p \<ge> 70 then ''C''
               else if p \<ge> 60 then ''D''
               else ''F'')
      in \<lparr>report_score = sc, report_total_questions = total_count, report_percentage = p,
          report_grade = g, report_time_taken = taken,
          avg_time_per_question = (if total_count > 0 then taken div total_count else 0),
          report_questions = qs, report_user_answers = user_answers,
          report_correct_results = correct_results\<rparr>)"

text \<open>
  The format \<open>:.1f\<close> under which the report logs the percentage and the window shows
  it: the nearest number with one decimal, a tie going to the even digit.
\<close>

definition round_half_even :: "real \<Rightarrow> int" where
  "round_half_even x =
     (let f = \<lfloor>x\<rfloor>; d = x - real_of_int f
      in if d < 1 / 2 then f else if d > 1 / 2 then f + 1 else if even f then f else f + 1)"

definition format_1f :: "real \<Rightarrow> string" where
  "format_1f x =
     (let t = round_half_even (x * 10)
      in (if t < 0 then ''-'' else []) @ str (\<bar>t\<bar> div 10) @ ''.'' @ str (\<bar>t\<bar> mod 10))"


section \<open>The quiz window (gui/quiz_window.py)\<close>

text \<open>
  The window is modelled by its state, without the widgets and the message boxes. The
  field \<open>timer\<close> tells whether a \<open>threading.Timer\<close> is scheduled; its firing after one
  second is the step \<open>timer_fires\<close>. \<open>total_time\<close> is the reading of
  \<open>int(time.time() - self.start_time)\<close> when the quiz finishes.
\<close>

record quiz_window =
  questions :: "question list"
  show_timer :: bool
  auto_submit :: bool
  total_time_limit :: int
  current_question_index :: nat
  user_answers :: "string list"
  timer :: bool
  time_remaining :: int
  quiz_completed :: bool
  answer_var :: string
  window_open :: bool











section \<open>Results on the migration engine\<close>

subsection \<open>Statements of the schema level\<close>









subsection \<open>One transaction\<close>

lemma apply_migration_failure_rolls_back:
  "apply_migration t m db = (False, db') \<Longrightarrow> db' = db"
  by (auto simp: apply_migration_def split: option.splits)

lemma apply_migration_success:
  "apply_migration t m db = (True, db') \<Longrightarrow>
     \<exists>db1. up m db = Some db1 \<and> insert_migration_row (version m, description m, t) db1 = Some db'"
  by (auto simp: apply_migration_def split: option.splits)



subsection \<open>The loop over the pending migrations\<close>

text \<open>
  The loop returns the state after the longest prefix whose transactions all committed;
  it returns \<open>True\<close> exactly when that prefix is the whole list, and otherwise the
  first migration after the prefix fails on that state and leaves it as it was.
\<close>

lemma apply_pending_split:
  "apply_pending elapsed ps db = (ok, db') \<Longrightarrow>
     \<exists>done rest. ps = done @ rest
       \<and> transactions_committed elapsed done db = Some db'
       \<and> (ok \<longleftrightarrow> rest = [])
       \<and> (rest \<noteq> [] \<longrightarrow>
            apply_migration (elapsed (version (hd rest))) (hd rest) db' = (False, db'))"
proof (induction ps arbitrary: db)
  case Nil
  then show ?case by auto
next
  case (Cons m ps)
  obtain b d where step: "apply_migration (elapsed (version m)) m db = (b, d)"
    by (cases "apply_migration (elapsed (version m)) m db")
  show ?case
  proof (cases b)
    case False
    with step have d: "d = db" by (auto dest: apply_migration_failure_rolls_back)
    from Cons.prems step False d have "ok = False" "db' = db" by auto
    with step False d show ?thesis
      by (intro exI[of _ "[]"] exI[of _ "m # ps"]) simp
  next
    case True
    with Cons.prems step have "apply_pending elapsed ps d = (ok, db')" by simp
    from Cons.IH[OF this] obtain dn rest where
      r: "ps = dn @ rest" "transactions_committed elapsed dn d = Some db'"
         "ok \<longleftrightarrow> rest = []"
         "rest \<noteq> [] \<longrightarrow>
            apply_migration (elapsed (version (hd rest))) (hd rest) db' = (False, db')"
      by blast
    from step True obtain db1 where
      "up m db = Some db1"
      "insert_migration_row (version m, description m, elapsed (version m)) db1 = Some d"
      by (auto dest: apply_migration_success)
    with r show ?thesis
      by (intro exI[of _ "m # dn"] exI[of _ rest]) simp
  qed
qed

lemma sorted_pending:
  "sorted (map version (get_pending_migrations (sort_migrations ms) db))"
  by (simp add: get_pending_migrations_def sort_migrations_def sorted_filter)

text \<open>
  C1. Once the tracking table is there, \<open>migrate\<close> walks the pending migrations in
  version order. The pending list splits into the migrations done and the rest: each
  migration done ran its step and had its version, description and duration recorded in
  its own transaction, one after the other, and the state returned is the state after the
  last of these commits. \<open>migrate\<close> returns \<open>True\<close> exactly when the rest is empty.
  When it is not, the first migration of the rest fails on the state returned and leaves
  it unchanged (its transaction is rolled back), and since the state returned is the one
  after the last commit, no later migration has run.
\<close>

theorem migrate_stops_at_first_failure:
  assumes "create_migrations_table db = Some db0"
      and "migrate (sort_migrations ms) elapsed db = (ok, db')"
  shows "\<exists>done rest. get_pending_migrations (sort_migrations ms) db0 = done @ rest
          \<and> sorted (map version (done @ rest))
          \<and> transactions_committed elapsed done db0 = Some db'
          \<and> (ok \<longleftrightarrow> rest = [])
          \<and> (rest \<noteq> [] \<longrightarrow>
               apply_migration (elapsed (version (hd rest))) (hd rest) db' = (False, db'))"
proof -
  let ?P = "get_pending_migrations (sort_migrations ms) db0"
  have "apply_pending elapsed ?P db0 = (ok, db')"
    using assms by (cases "?P = []") (auto simp: migrate_def Let_def)
  from apply_pending_split[OF this] obtain dn rest where
    r: "?P = dn @ rest" "transactions_committed elapsed dn db0 = Some db'"
       "ok \<longleftrightarrow> rest = []"
       "rest \<noteq> [] \<longrightarrow>
          apply_migration (elapsed (version (hd rest))) (hd rest) db' = (False, db')"
    by blast
  have "sorted (map version (dn @ rest))"
    using sorted_pending[of ms db0] r(1) by simp
  with r show ?thesis by blast
qed

text \<open>
  The witness is the run of the five registered migrations on the schema that the
  \<open>DatabaseManager\<close> has just created: 001 and 002 are recorded, 003 fails because the
  column \<open>tags\<close> is already there, and \<open>migrate\<close> returns \<open>False\<close>.
\<close>

theorem migrate_stops_at_first_failure_witness:
  "create_migrations_table initial_schema
     = Some (snd (migrate [] (\<lambda>v. 3) initial_schema))
   \<and> fst (migrate register_migrations (\<lambda>v. 3) initial_schema) = False
   \<and> map fst (schema_migrations (snd (migrate register_migrations (\<lambda>v. 3) initial_schema)))
       = [''001'', ''002'']
   \<and> (\<exists>done rest.
        get_pending_migrations register_migrations (snd (migrate [] (\<lambda>v. 3) initial_schema))
          = done @ rest
        \<and> sorted (map version (done @ rest))
        \<and> transactions_committed (\<lambda>v. 3) done (snd (migrate [] (\<lambda>v. 3) initial_schema))
            = Some (snd (migrate register_migrations (\<lambda>v. 3) initial_schema))
        \<and> rest \<noteq> []
        \<and> apply_migration 3 (hd rest) (snd (migrate register_migrations (\<lambda>v. 3) initial_schema))
            = (False, snd (migrate register_migrations (\<lambda>v. 3) initial_schema)))"
proof -
  let ?db0 = "snd (migrate [] (\<lambda>v. 3) initial_schema)"
  let ?r = "migrate register_migrations (\<lambda>v. 3) initial_schema"
  have c: "create_migrations_table initial_schema = Some ?db0"
    by code_simp
  have f: "fst ?r = False"
    by code_simp
  have v: "map fst (schema_migrations (snd ?r)) = [''001'', ''002'']"
    by code_simp
  have m: "migrate (sort_migrations [InitialSchemaMigration, AddIndexesMigration,
      AddTagsColumnMigration, AddDifficultyLevelsMigration, AddQuizResultsTrackingMigration])
      (\<lambda>v. 3) initial_schema = (False, snd ?r)"
    using f by (simp add: register_migrations_def prod_eq_iff)
  from migrate_stops_at_first_failure[OF c m] obtain dn rest where
    r1: "get_pending_migrations register_migrations ?db0 = dn @ rest" and
    r2: "sorted (map version (dn @ rest))" and
    r3: "transactions_committed (\<lambda>v. 3) dn ?db0 = Some (snd ?r)" and
    r4: "False \<longleftrightarrow> rest = []" and
    r5: "rest \<noteq> [] \<longrightarrow> apply_migration 3 (hd rest) (snd ?r) = (False, snd ?r)"
    unfolding register_migrations_def by blast
  from r4 have r6: "rest \<noteq> []" by simp
  with r5 have r7: "apply_migration 3 (hd rest) (snd ?r) = (False, snd ?r)" by simp
  from r1 r2 r3 r6 r7 have
    "\<exists>done rest.
        get_pending_migrations register_migrations ?db0 = done @ rest
        \<and> sorted (map version (done @ rest))
        \<and> transactions_committed (\<lambda>v. 3) done ?db0 = Some (snd ?r)
        \<and> rest \<noteq> []
        \<and> apply_migration 3 (hd rest) (snd ?r) = (False, snd ?r)"
    by blast
  with c f v show ?thesis by blast
qed















text \<open>
  C8. When the tracking table does not exist, the query of \<open>get_applied_migrations\<close>
  fails with \<open>OperationalError\<close>, the handler turns that into the empty list, and
  \<open>get_pending_migrations\<close> returns every registered migration, sorted by version.
\<close>

theorem pending_without_tracking_table:
  "\<not> has_table ''schema_migrations'' db \<Longrightarrow>
     select_versions db = Inl OperationalError
     \<and> get_applied_migrations db = []
     \<and> get_pending_migrations (sort_migrations ms) db = sort_migrations ms
     \<and> sorted (map version (get_pending_migrations (sort_migrations ms) db))"
  by (simp add: select_versions_def get_applied_migrations_def get_pending_migrations_def
      sort_migrations_def)

theorem pending_without_tracking_table_witness:
  "\<not> has_table ''schema_migrations'' initial_schema
   \<and> select_versions initial_schema = Inl OperationalError
   \<and> get_applied_migrations initial_schema = []
   \<and> get_pending_migrations register_migrations initial_schema = register_migrations
   \<and> map version (get_pending_migrations register_migrations initial_schema)
       = [''001'', ''002'', ''003'', ''004'', ''005'']"
proof -
  have h: "\<not> has_table ''schema_migrations'' initial_schema"
    by code_simp
  have v: "map version register_migrations = [''001'', ''002'', ''003'', ''004'', ''005'']"
    by code_simp
  from pending_without_tracking_table[OF h, of "[InitialSchemaMigration, AddIndexesMigration,
      AddTagsColumnMigration, AddDifficultyLevelsMigration, AddQuizResultsTrackingMigration]"]
    h v
  show ?thesis by (simp add: register_migrations_def)
qed

section \<open>Results on the repositories\<close>

subsection \<open>Joining and splitting the tags\<close>






subsection \<open>Keys\<close>




lemma filter_unique:
  "distinct (map f xs) \<Longrightarrow> x \<in> set xs \<Longrightarrow> filter (\<lambda>y. f y = f x) xs = [x]"
proof (induction xs)
  case Nil
  then show ?case by simp
next
  case (Cons a xs)
  show ?case
  proof (cases "a = x")
    case True
    with Cons.prems have "f x \<notin> f ` set xs" by simp
    then have "\<forall>y\<in>set xs. f y \<noteq> f x"
      by (metis image_eqI)
    then have "filter (\<lambda>y. f y = f x) xs = []"
      by (simp add: filter_empty_conv)
    with True show ?thesis by simp
  next
    case False
    with Cons.prems have x: "x \<in> set xs" and d: "distinct (map f xs)" and "f a \<notin> f ` set xs"
      by simp_all
    then have "f a \<noteq> f x" by blast
    with Cons.IH[OF d x] show ?thesis by simp
  qed
qed

subsection \<open>The store of a new file\<close>

lemma fresh_question_ids:
  "map qr_id (questions_table (fresh_store t0)) = [1, 2, 3, 4, 5, 6, 7, 8]"
  by (simp add: fresh_store_def init_database_def insert_sample_data_def sample_questions_def
      insert_question_def insert_user_def next_rowid_def empty_store_def)

lemma fresh_users:
  "users_table (fresh_store t0) =
     [\<lparr>ur_id = 1, ur_username = ''admin'', ur_password_hash = ''admin123'', ur_role = ''admin'',
       ur_created_at = t0, ur_last_login = None, ur_is_active = True\<rparr>]"
  by (simp add: fresh_store_def init_database_def insert_sample_data_def sample_questions_def
      insert_question_def insert_user_def next_rowid_def empty_store_def)

lemma init_database_fresh: "init_database empty_store t0 = Inr (fresh_store t0)"
  by (simp add: fresh_store_def init_database_def insert_sample_data_def sample_questions_def
      insert_question_def insert_user_def next_rowid_def empty_store_def)

subsection \<open>Creating a question and reading it back\<close>




subsection \<open>Authentication\<close>

text \<open>
  C6. In a store whose user names and user ids are distinct, as the \<open>UNIQUE\<close> and
  \<open>PRIMARY KEY\<close> constraints of the table keep them: for a row with the given name, the
  given password as its stored credential and the active flag set, \<open>authenticate\<close>
  returns the user of that row and a store that differs only in the \<open>last_login\<close> of that
  row; when no row is like that, it returns none and the store as it was. In the store of
  a new file, \<open>authenticate\<close> with "admin" and "admin123" returns the user admin with
  role "admin", and with "admin" and "wrong" it returns none and leaves the store alone.
\<close>

theorem authenticate_correct:
  "(distinct (map ur_username (users_table s)) \<and> distinct (map ur_id (users_table s)) \<longrightarrow>
      (\<forall>row\<in>set (users_table s).
          ur_username row = name \<and> ur_password_hash row = password \<and> ur_is_active row \<longrightarrow>
          authenticate s now name password =
            (Some (row_to_user row),
             s\<lparr>users_table :=
                 map (\<lambda>r. if r = row then r\<lparr>ur_last_login := Some now\<rparr> else r)
                   (users_table s)\<rparr>))
      \<and> ((\<forall>row\<in>set (users_table s).
             \<not> (ur_username row = name \<and> ur_password_hash row = password \<and> ur_is_active row)) \<longrightarrow>
          authenticate s now name password = (None, s)))
   \<and> init_database empty_store t0 = Inr (fresh_store t0)
   \<and> authenticate (fresh_store t0) now ''admin'' ''admin123'' =
       (Some \<lparr>u_id = Some 1, username = ''admin'', password_hash = ''admin123'',
               role = ''admin'', u_created_at = Some t0, last_login = None,
               is_active = True\<rparr>,
        (fresh_store t0)\<lparr>users_table :=
          [\<lparr>ur_id = 1, ur_username = ''admin'', ur_password_hash = ''admin123'',
            ur_role = ''admin'', ur_created_at = t0, ur_last_login = Some now,
            ur_is_active = True\<rparr>]\<rparr>)
   \<and> authenticate (fresh_store t0) now ''admin'' ''wrong'' = (None, fresh_store t0)"
proof (intro conjI impI ballI)
  fix row
  assume d: "distinct (map ur_username (users_table s)) \<and> distinct (map ur_id (users_table s))"
    and r: "row \<in> set (users_table s)"
    and m: "ur_username row = name \<and> ur_password_hash row = password \<and> ur_is_active row"
  from d have d1: "distinct (map ur_username (users_table s))" by simp
  from filter_unique[OF d1 r] m
  have g: "get_by_username s name = Some (row_to_user row)"
    by (simp add: get_by_username_def)
  have "inj_on ur_id (set (users_table s))"
    using d by (simp add: distinct_map)
  with r have "\<forall>r\<in>set (users_table s). (ur_id r = ur_id row) = (r = row)"
    by (auto dest: inj_onD)
  then have "map (\<lambda>r. if Some (ur_id r) = Some (ur_id row)
                      then r\<lparr>ur_last_login := Some now\<rparr> else r) (users_table s)
      = map (\<lambda>r. if r = row then r\<lparr>ur_last_login := Some now\<rparr> else r) (users_table s)"
    by (intro map_cong) auto
  with g m show "authenticate s now name password =
              (Some (row_to_user row),
               s\<lparr>users_table :=
                   map (\<lambda>r. if r = row then r\<lparr>ur_last_login := Some now\<rparr> else r)
                     (users_table s)\<rparr>)"
    by (simp add: authenticate_def update_last_login_def row_to_user_def)
next
  assume n: "\<forall>row\<in>set (users_table s).
      \<not> (ur_username row = name \<and> ur_password_hash row = password \<and> ur_is_active row)"
  show "authenticate s now name password = (None, s)"
  proof (cases "filter (\<lambda>row. ur_username row = name) (users_table s)")
    case Nil
    then show ?thesis by (simp add: authenticate_def get_by_username_def)
  next
    case (Cons row rows)
    then have "row \<in> set (filter (\<lambda>row. ur_username row = name) (users_table s))" by simp
    then have "row \<in> set (users_table s)" "ur_username row = name" by simp_all
    with n have "\<not> (ur_password_hash row = password \<and> ur_is_active row)" by blast
    with Cons show ?thesis
      by (auto simp: authenticate_def get_by_username_def row_to_user_def)
  qed
next
  show "init_database empty_store t0 = Inr (fresh_store t0)"
    by (rule init_database_fresh)
next
  show "authenticate (fresh_store t0) now ''admin'' ''admin123'' =
       (Some \<lparr>u_id = Some 1, username = ''admin'', password_hash = ''admin123'',
               role = ''admin'', u_created_at = Some t0, last_login = None,
               is_active = True\<rparr>,
        (fresh_store t0)\<lparr>users_table :=
          [\<lparr>ur_id = 1, ur_username = ''admin'', ur_password_hash = ''admin123'',
            ur_role = ''admin'', ur_created_at = t0, ur_last_login = Some now,
            ur_is_active = True\<rparr>]\<rparr>)"
    by (simp add: authenticate_def get_by_username_def update_last_login_def row_to_user_def
        fresh_users)
next
  show "authenticate (fresh_store t0) now ''admin'' ''wrong'' = (None, fresh_store t0)"
    by (simp add: authenticate_def get_by_username_def update_last_login_def row_to_user_def
        fresh_users)
qed

text \<open>
  A store with an active and an inactive user: the right password of the active user is
  accepted and stamps her row; a wrong password, the right password of the inactive user
  and an unknown name are refused and change nothing.
\<close>

theorem authenticate_correct_witness:
  "authenticate
      \<lparr>questions_table = [], seq_questions = 0,
       users_table =
         [\<lparr>ur_id = 1, ur_username = ''alice'', ur_password_hash = ''secret1'',
           ur_role = ''user'', ur_created_at = 3, ur_last_login = None, ur_is_active = True\<rparr>,
          \<lparr>ur_id = 2, ur_username = ''bob'', ur_password_hash = ''hunter2'',
           ur_role = ''user'', ur_created_at = 4, ur_last_login = None, ur_is_active = False\<rparr>],
       seq_users = 2, quiz_results_table = [], seq_quiz_results = 0\<rparr>
      9 ''alice'' ''secret1''
    = (Some \<lparr>u_id = Some 1, username = ''alice'', password_hash = ''secret1'', role = ''user'',
             u_created_at = Some 3, last_login = None, is_active = True\<rparr>,
       \<lparr>questions_table = [], seq_questions = 0,
        users_table =
          [\<lparr>ur_id = 1, ur_username = ''alice'', ur_password_hash = ''secret1'',
            ur_role = ''user'', ur_created_at = 3, ur_last_login = Some 9, ur_is_active = True\<rparr>,
           \<lparr>ur_id = 2, ur_username = ''bob'', ur_password_hash = ''hunter2'',
            ur_role = ''user'', ur_created_at = 4, ur_last_login = None, ur_is_active = False\<rparr>],
        seq_users = 2, quiz_results_table = [], seq_quiz_results = 0\<rparr>)
   \<and> authenticate
      \<lparr>questions_table = [], seq_questions = 0,
       users_table =
         [\<lparr>ur_id = 1, ur_username = ''alice'', ur_password_hash = ''secret1'',
           ur_role = ''user'', ur_created_at = 3, ur_last_login = None, ur_is_active = True\<rparr>,
          \<lparr>ur_id = 2, ur_username = ''bob'', ur_password_hash = ''hunter2'',
           ur_role = ''user'', ur_created_at = 4, ur_last_login = None, ur_is_active = False\<rparr>],
       seq_users = 2, quiz_results_table = [], seq_quiz_results = 0\<rparr>
      9 ''bob'' ''hunter2''
    = (None,
       \<lparr>questions_table = [], seq_questions = 0,
        users_table =
          [\<lparr>ur_id = 1, ur_username = ''alice'', ur_password_hash = ''secret1'',
            ur_role = ''user'', ur_created_at = 3, ur_last_login = None, ur_is_active = True\<rparr>,
           \<lparr>ur_id = 2, ur_username = ''bob'', ur_password_hash = ''hunter2'',
            ur_role = ''user'', ur_created_at = 4, ur_last_login = None, ur_is_active = False\<rparr>],
        seq_users = 2, quiz_results_table = [], seq_quiz_results = 0\<rparr>)"
proof -
  let ?a = "\<lparr>ur_id = 1, ur_username = ''alice'', ur_password_hash = ''secret1'',
           ur_role = ''user'', ur_created_at = 3, ur_last_login = None, ur_is_active = True\<rparr>"
  let ?b = "\<lparr>ur_id = 2, ur_username = ''bob'', ur_password_hash = ''hunter2'',
           ur_role = ''user'', ur_created_at = 4, ur_last_login = None, ur_is_active = False\<rparr>"
  let ?S = "\<lparr>questions_table = [], seq_questions = 0, users_table = [?a, ?b],
       seq_users = 2, quiz_results_table = [], seq_quiz_results = 0\<rparr>"
  have d: "distinct (map ur_username (users_table ?S)) \<and> distinct (map ur_id (users_table ?S))"
    by simp
  from authenticate_correct[of ?S "''alice''" "''secret1''" 9 0] d
  have "authenticate ?S 9 ''alice'' ''secret1'' =
          (Some (row_to_user ?a),
           ?S\<lparr>users_table := map (\<lambda>r. if r = ?a then r\<lparr>ur_last_login := Some 9\<rparr> else r)
                  (users_table ?S)\<rparr>)"
    by simp
  then have a: "authenticate ?S 9 ''alice'' ''secret1'' =
      (Some \<lparr>u_id = Some 1, username = ''alice'', password_hash = ''secret1'', role = ''user'',
             u_created_at = Some 3, last_login = None, is_active = True\<rparr>,
       \<lparr>questions_table = [], seq_questions = 0,
        users_table = [?a\<lparr>ur_last_login := Some 9\<rparr>, ?b],
        seq_users = 2, quiz_results_table = [], seq_quiz_results = 0\<rparr>)"
    by (simp add: row_to_user_def)
  from authenticate_correct[of ?S "''bob''" "''hunter2''" 9 0] d
  have b: "authenticate ?S 9 ''bob'' ''hunter2'' = (None, ?S)"
    by simp
  from a b show ?thesis by simp
qed

subsection \<open>Random questions\<close>

lemma length_order_by_random: "length (order_by_random rnd rows) = length rows"
  by (simp add: order_by_random_def)

lemma map_order_by_random:
  "distinct (map f rows) \<Longrightarrow> distinct (map f (order_by_random rnd rows))"
proof -
  assume d: "distinct (map f rows)"
  let ?zs = "zip (map rnd [0..<length rows]) rows"
  have z: "map snd ?zs = rows" by (simp add: map_snd_zip)
  then have "distinct (map (f \<circ> snd) ?zs)"
    using d by (metis map_map)
  then have "distinct ?zs" "inj_on (f \<circ> snd) (set ?zs)"
    by (simp_all add: distinct_map)
  then have "distinct (map (f \<circ> snd) (sort_key fst ?zs))"
    by (simp add: distinct_map)
  then show ?thesis by (simp add: order_by_random_def)
qed

lemma set_order_by_random: "set (order_by_random rnd rows) = set rows"
proof -
  let ?zs = "zip (map rnd [0..<length rows]) rows"
  have "map snd ?zs = rows" by (simp add: map_snd_zip)
  then have "snd ` set ?zs = set rows" by (metis list.set_map)
  then show ?thesis by (simp add: order_by_random_def)
qed

text \<open>
  C7. In a store whose question ids are distinct, as the primary key keeps them, and for a
  count \<open>k\<close> from 0 up to the number of rows that pass the filters, whatever numbers
  \<open>RANDOM()\<close> draws: \<open>get_random_questions\<close> returns exactly \<open>k\<close> questions, each the
  image of a stored row that passes the filters, and no question twice (their ids are
  distinct).
\<close>

theorem get_random_questions_exactly_k:
  assumes "distinct (map qr_id (questions_table s))"
      and "0 \<le> k"
      and "k \<le> int (length (matching_rows s cat diff))"
  shows "length (get_random_questions s rnd k cat diff) = nat k
       \<and> set (get_random_questions s rnd k cat diff)
            \<subseteq> row_to_question ` set (matching_rows s cat diff)
       \<and> set (matching_rows s cat diff) \<subseteq> set (questions_table s)
       \<and> distinct (map q_id (get_random_questions s rnd k cat diff))
       \<and> distinct (get_random_questions s rnd k cat diff)"
proof -
  let ?m = "matching_rows s cat diff"
  let ?o = "order_by_random rnd ?m"
  have g: "get_random_questions s rnd k cat diff = map row_to_question (take (nat k) ?o)"
    using assms(2) by (simp add: get_random_questions_def limit_def)
  have l: "length (get_random_questions s rnd k cat diff) = nat k"
    using assms(3) by (simp add: g length_order_by_random)
  have "set (take (nat k) ?o) \<subseteq> set ?m"
    using set_take_subset[of "nat k" ?o] by (simp add: set_order_by_random)
  then have sub: "set (get_random_questions s rnd k cat diff) \<subseteq> row_to_question ` set ?m"
    by (auto simp: g)
  have st: "set ?m \<subseteq> set (questions_table s)"
    by (simp add: matching_rows_def)
  have "distinct (map qr_id ?m)"
    using assms(1) by (simp add: matching_rows_def distinct_map_filter)
  then have "distinct (map qr_id ?o)" by (rule map_order_by_random)
  then have "distinct (take (nat k) (map qr_id ?o))" by (rule distinct_take)
  then have dq: "distinct (map qr_id (take (nat k) ?o))" by (simp add: take_map)
  have e: "map q_id (get_random_questions s rnd k cat diff)
          = map Some (map qr_id (take (nat k) ?o))"
    by (simp add: g row_to_question_def comp_def)
  have "distinct (map Some (map qr_id (take (nat k) ?o)))"
    using dq by (metis distinct_map inj_Some)
  with e have di: "distinct (map q_id (get_random_questions s rnd k cat diff))"
    by simp
  then have "distinct (get_random_questions s rnd k cat diff)"
    by (simp add: distinct_map)
  with l sub st di show ?thesis by blast
qed

text \<open>Three questions out of the eight of a new file.\<close>

theorem get_random_questions_exactly_k_witness:
  "length (get_random_questions (fresh_store 0) (\<lambda>i. (int i * 5 + 3) mod 8) 3 None None) = 3
   \<and> distinct (map q_id
        (get_random_questions (fresh_store 0) (\<lambda>i. (int i * 5 + 3) mod 8) 3 None None))
   \<and> set (get_random_questions (fresh_store 0) (\<lambda>i. (int i * 5 + 3) mod 8) 3 None None)
        \<subseteq> row_to_question ` set (questions_table (fresh_store 0))"
proof -
  have d: "distinct (map qr_id (questions_table (fresh_store 0)))"
    by (simp only: fresh_question_ids) simp
  have m: "matching_rows (fresh_store 0) None None = questions_table (fresh_store 0)"
    by (simp add: matching_rows_def)
  have "length (map qr_id (questions_table (fresh_store 0))) = 8"
    by (simp only: fresh_question_ids) simp
  with m have k: "3 \<le> int (length (matching_rows (fresh_store 0) None None))"
    by simp
  from get_random_questions_exactly_k[OF d _ k, of "\<lambda>i. (int i * 5 + 3) mod 8"] m
  show ?thesis by simp
qed

section \<open>Results on the quiz service\<close>

lemma upt_0_Suc_shift: "[0..<Suc n] = 0 # map Suc [0..<n]"
  by (simp add: upt_conv_Cons map_Suc_upt del: upt_Suc)

lemma calculate_score_loop_eq:
  "calculate_score_loop i qs uas sc res =
     (sc + int (length (filter (\<lambda>b. b)
        (map (\<lambda>j. i + j < length uas \<and> uas ! (i + j) = answer (qs ! j)) [0..<length qs]))),
      res @ map (\<lambda>j. i + j < length uas \<and> uas ! (i + j) = answer (qs ! j)) [0..<length qs])"
proof (induction qs arbitrary: i sc res)
  case Nil
  then show ?case by simp
next
  case (Cons q qs)
  have shift: "map (\<lambda>j. i + j < length uas \<and> uas ! (i + j) = answer ((q # qs) ! j))
                  [0..<length (q # qs)]
        = (i < length uas \<and> uas ! i = answer q)
            # map (\<lambda>j. Suc i + j < length uas \<and> uas ! (Suc i + j) = answer (qs ! j))
                [0..<length qs]"
    by (simp only: length_Cons upt_0_Suc_shift)
       (simp add: comp_def del: upt_Suc map_Suc_upt)
  show ?case
    by (simp only: shift calculate_score_loop.simps Cons.IH Let_def) auto
qed

lemma calculate_score_eq:
  "calculate_score qs uas =
     (int (length (filter (\<lambda>b. b)
        (map (\<lambda>i. i < length uas \<and> uas ! i = answer (qs ! i)) [0..<length qs]))),
      map (\<lambda>i. i < length uas \<and> uas ! i = answer (qs ! i)) [0..<length qs])"
  by (simp add: calculate_score_def calculate_score_loop_eq)


text \<open>
  C5. \<open>calculate_score\<close> returns one result per question: the result at index \<open>i\<close> is
  true exactly when an answer is recorded at \<open>i\<close> and equals the answer of question
  \<open>i\<close>, so a missing answer counts as incorrect; the score is the number of true results.
  For three questions whose answers are A, C and B and the user answers A, B and B, it
  returns score 2 and the results true, false, true; the report made from these has
  score 2, percentage 200/3, which the format \<open>:.1f\<close> prints as 66.7, and grade D.
\<close>

theorem calculate_score_correct:
  "snd (calculate_score qs uas)
     = map (\<lambda>i. i < length uas \<and> uas ! i = answer (qs ! i)) [0..<length qs]
   \<and> fst (calculate_score qs uas)
     = int (length (filter (\<lambda>b. b) (snd (calculate_score qs uas))))
   \<and> calculate_score [q1\<lparr>answer := ''A''\<rparr>, q2\<lparr>answer := ''C''\<rparr>, q3\<lparr>answer := ''B''\<rparr>]
        [''A'', ''B'', ''B''] = (2, [True, False, True])
   \<and> report_score (generate_quiz_report
        [q1\<lparr>answer := ''A''\<rparr>, q2\<lparr>answer := ''C''\<rparr>, q3\<lparr>answer := ''B''\<rparr>]
        [''A'', ''B'', ''B''] [True, False, True] taken) = 2
   \<and> report_percentage (generate_quiz_report
        [q1\<lparr>answer := ''A''\<rparr>, q2\<lparr>answer := ''C''\<rparr>, q3\<lparr>answer := ''B''\<rparr>]
        [''A'', ''B'', ''B''] [True, False, True] taken) = 200 / 3
   \<and> format_1f (report_percentage (generate_quiz_report
        [q1\<lparr>answer := ''A''\<rparr>, q2\<lparr>answer := ''C''\<rparr>, q3\<lparr>answer := ''B''\<rparr>]
        [''A'', ''B'', ''B''] [True, False, True] taken)) = ''66.7''
   \<and> report_grade (generate_quiz_report
        [q1\<lparr>answer := ''A''\<rparr>, q2\<lparr>answer := ''C''\<rparr>, q3\<lparr>answer := ''B''\<rparr>]
        [''A'', ''B'', ''B''] [True, False, True] taken) = ''D''"
proof -
  have f: "format_1f (200 / 3) = ''66.7''" by code_simp
  have p: "report_percentage (generate_quiz_report
        [q1\<lparr>answer := ''A''\<rparr>, q2\<lparr>answer := ''C''\<rparr>, q3\<lparr>answer := ''B''\<rparr>]
        [''A'', ''B'', ''B''] [True, False, True] taken) = 200 / 3"
    by (simp add: generate_quiz_report_def)
  have c: "calculate_score [q1\<lparr>answer := ''A''\<rparr>, q2\<lparr>answer := ''C''\<rparr>, q3\<lparr>answer := ''B''\<rparr>]
        [''A'', ''B'', ''B''] = (2, [True, False, True])"
    by (simp add: calculate_score_def)
  have g: "report_grade (generate_quiz_report
        [q1\<lparr>answer := ''A''\<rparr>, q2\<lparr>answer := ''C''\<rparr>, q3\<lparr>answer := ''B''\<rparr>]
        [''A'', ''B'', ''B''] [True, False, True] taken) = ''D''"
    by (simp add: generate_quiz_report_def)
  have s: "report_score (generate_quiz_report
        [q1\<lparr>answer := ''A''\<rparr>, q2\<lparr>answer := ''C''\<rparr>, q3\<lparr>answer := ''B''\<rparr>]
        [''A'', ''B'', ''B''] [True, False, True] taken) = 2"
    by (simp add: generate_quiz_report_def)
  have f': "format_1f (report_percentage (generate_quiz_report
        [q1\<lparr>answer := ''A''\<rparr>, q2\<lparr>answer := ''C''\<rparr>, q3\<lparr>answer := ''B''\<rparr>]
        [''A'', ''B'', ''B''] [True, False, True] taken)) = ''66.7''"
    by (simp only: p f)
  have a1: "snd (calculate_score qs uas)
     = map (\<lambda>i. i < length uas \<and> uas ! i = answer (qs ! i)) [0..<length qs]"
    by (simp add: calculate_score_eq)
  have a2: "fst (calculate_score qs uas)
     = int (length (filter (\<lambda>b. b) (snd (calculate_score qs uas))))"
    by (simp add: calculate_score_eq)
  from a1 a2 c s p f' g show ?thesis by blast
qed


text \<open>Two questions and one recorded answer: the second question counts as incorrect.\<close>

theorem calculate_score_correct_witness:
  "snd (calculate_score
      [\<lparr>q_id = Some 1, prompt = ''first'', option_a = ''a'', option_b = ''b'', option_c = ''c'',
         answer = ''A'', category = ''General'', difficulty = ''Medium'',
         q_created_at = None, q_updated_at = None, tags = []\<rparr>,
       \<lparr>q_id = Some 2, prompt = ''second'', option_a = ''a'', option_b = ''b'', option_c = ''c'',
         answer = ''B'', category = ''General'', difficulty = ''Medium'',
         q_created_at = None, q_updated_at = None, tags = []\<rparr>]
      [''A'']) = [True, False]
   \<and> fst (calculate_score
      [\<lparr>q_id = Some 1, prompt = ''first'', option_a = ''a'', option_b = ''b'', option_c = ''c'',
         answer = ''A'', category = ''General'', difficulty = ''Medium'',
         q_created_at = None, q_updated_at = None, tags = []\<rparr>,
       \<lparr>q_id = Some 2, prompt = ''second'', option_a = ''a'', option_b = ''b'', option_c = ''c'',
         answer = ''B'', category = ''General'', difficulty = ''Medium'',
         q_created_at = None, q_updated_at = None, tags = []\<rparr>]
      [''A'']) = 1"
proof -
  let ?qs = "[\<lparr>q_id = Some 1, prompt = ''first'', option_a = ''a'', option_b = ''b'',
         option_c = ''c'', answer = ''A'', category = ''General'', difficulty = ''Medium'',
         q_created_at = None, q_updated_at = None, tags = []\<rparr>,
       \<lparr>q_id = Some 2, prompt = ''second'', option_a = ''a'', option_b = ''b'', option_c = ''c'',
         answer = ''B'', category = ''General'', difficulty = ''Medium'',
         q_created_at = None, q_updated_at = None, tags = []\<rparr>]"
  have u: "[0..<length ?qs] = [0, 1]"
    by (simp add: upt_conv_Cons)
  from calculate_score_correct[of ?qs "[''A'']"]
  have s: "snd (calculate_score ?qs [''A''])
             = map (\<lambda>i. i < length [''A''] \<and> [''A''] ! i = answer (?qs ! i)) [0..<length ?qs]"
    and f: "fst (calculate_score ?qs [''A''])
             = int (length (filter (\<lambda>b. b) (snd (calculate_score ?qs [''A'']))))"
    by blast+
  from s have s': "snd (calculate_score ?qs [''A'']) = [True, False]"
    by (simp only: u) simp
  with f show ?thesis by simp
qed

section \<open>Results on the quiz window\<close>

lemma timer_set: "timer w \<Longrightarrow> w\<lparr>timer := True\<rparr> = w"
  by (cases w) simp








section \<open>Results on the quiz result\<close>

text \<open>
  C10. For every quiz result whose \<open>total_questions\<close> is 0, whatever its score, the
  percentage is 0.0 and the grade is "F": the guard keeps the division from being reached.
\<close>

theorem percentage_grade_zero_total:
  "total_questions r = 0 \<Longrightarrow> percentage r = 0 \<and> grade r = ''F''"
  by (simp add: percentage_def grade_def)

theorem percentage_grade_zero_total_witness:
  "total_questions \<lparr>r_id = None, user_id = None, score = 7, total_questions = 0,
      time_taken = 12, completed_at = None, questions_attempted = []\<rparr> = 0
   \<and> percentage \<lparr>r_id = None, user_id = None, score = 7, total_questions = 0,
      time_taken = 12, completed_at = None, questions_attempted = []\<rparr> = 0
   \<and> grade \<lparr>r_id = None, user_id = None, score = 7, total_questions = 0,
      time_taken = 12, completed_at = None, questions_attempted = []\<rparr> = ''F''"
  using percentage_grade_zero_total
    [of "\<lparr>r_id = None, user_id = None, score = 7, total_questions = 0,
      time_taken = 12, completed_at = None, questions_attempted = []\<rparr>"]
  by simp

end
